theory Spec2Isabelle
  imports Main "HOL-Library.AList"
begin

section \<open>Python exceptions\<close>

text \<open>
  Every \<^verbatim>\<open>raise\<close>, failed \<^verbatim>\<open>assert\<close> and failing built-in operation of the
  source is a value of \<open>error\<close>. \<open>KeyError\<close> carries the missing key and
  \<open>ValueError\<close> the message the source formats, so that a theorem can say which
  entity an error names.
\<close>

datatype error =
    AssertionError
  | IndexError
  | KeyError string
  | ValueError string
  | TypeError
  | AttributeError
  | NotImplementedError
  | OverflowError

section \<open>The shared context (\<^verbatim>\<open>brainpy/_src/dyn/context.py\<close>)\<close>

text \<open>
  The objects passed to \<^verbatim>\<open>_ShareContext.save\<close>: identifiers are strings (or any other
  hashable scalar), the data are scalars. \<^verbatim>\<open>self._arguments\<close> is a dictionary from
  objects to objects.
\<close>

datatype obj = Str string | Num int

type_synonym shargs = "obj \<rightharpoonup> obj"

text \<open>\<^verbatim>\<open>range(0, n, 2)\<close>: the even numbers below \<open>n\<close>, ascending.\<close>

definition range_by_two :: "nat \<Rightarrow> nat list" where
  "range_by_two n = filter even [0..<n]"

text \<open>
  The positional loop of \<^verbatim>\<open>save\<close>, for the remaining loop indices \<open>is\<close>:
  \<^verbatim>\<open>
    for i in range(0, len(args), 2):
      identifier = args[i * 2]
      data = args[i * 2 + 1]
      self._arguments[identifier] = data
  \<close>
  A read past the end of \<^verbatim>\<open>args\<close> raises \<open>IndexError\<close>; the dictionary keeps what
  earlier iterations stored, so the result is the error (if any) together with the
  dictionary as the call leaves it.
\<close>

fun save_positional :: "obj list \<Rightarrow> nat list \<Rightarrow> shargs \<Rightarrow> error option \<times> shargs" where
  "save_positional args [] m = (None, m)"
| "save_positional args (i # is) m =
     (if i * 2 < length args then
        (if i * 2 + 1 < length args then
           save_positional args is (m(args ! (i * 2) \<mapsto> args ! (i * 2 + 1)))
         else (Some IndexError, m))
      else (Some IndexError, m))"

text \<open>
  What the iterations of that loop for the indices \<open>is\<close> store when none of them
  fails: the pair at positions \<open>2i\<close> and \<open>2i+1\<close> for each index \<open>i\<close>, in turn.
\<close>

definition stored_by :: "obj list \<Rightarrow> nat list \<Rightarrow> shargs \<Rightarrow> shargs" where
  "stored_by args is m = foldl (\<lambda>m i. m(args ! (i * 2) \<mapsto> args ! (i * 2 + 1))) m is"

text \<open>
  \<^verbatim>\<open>
    for identifier, data in kwargs.items():
      self._arguments[identifier] = data
  \<close>
\<close>

fun save_keywords :: "(string \<times> obj) list \<Rightarrow> shargs \<Rightarrow> shargs" where
  "save_keywords [] m = m"
| "save_keywords ((identifier, data) # kwargs) m = save_keywords kwargs (m(Str identifier \<mapsto> data))"

definition save :: "obj list \<Rightarrow> (string \<times> obj) list \<Rightarrow> shargs \<Rightarrow> error option \<times> shargs" where
  "save args kwargs m =
     (if length args mod 2 \<noteq> 0 then (Some AssertionError, m)
      else (case save_positional args (range_by_two (length args)) m of
              (Some e, m') \<Rightarrow> (Some e, m')
            | (None, m') \<Rightarrow> (None, save_keywords kwargs m')))"

section \<open>Children of a container (\<^verbatim>\<open>brainpy/dyn/base.py\<close>)\<close>

text \<open>
  The classes of \<^verbatim>\<open>base.py\<close> whose instances the code treats differently:
  \<^verbatim>\<open>NeuGroup\<close> and \<^verbatim>\<open>SynConn\<close> are separate subclasses of \<^verbatim>\<open>DynamicalSystem\<close>,
  \<^verbatim>\<open>CondNeuGroup\<close> is a subclass of \<^verbatim>\<open>NeuGroup\<close> (and the one class of the file that
  overrides \<^verbatim>\<open>register_implicit_nodes\<close>); every other dynamical system (channels,
  synaptic components, containers) is \<open>OtherDynSys\<close>.
\<close>

datatype node_class = NeuGroup | CondNeuGroup | SynConn | OtherDynSys

text \<open>
  A \<^verbatim>\<open>DynamicalSystem\<close> object as the container code reads it: its name, its class
  and \<^verbatim>\<open>self.local_delay_vars\<close>, the insertion-ordered dictionary from delay
  identifiers to the \<^verbatim>\<open>LengthDelay\<close> objects this node created (objects are
  named by their address in the store of \<open>world\<close> below).
\<close>

record node =
  name :: string
  cls :: node_class
  local_delay_vars :: "(string \<times> nat) list"

text \<open>
  \<^verbatim>\<open>DynamicalSystem.__init__\<close>: a new node of a given name and class has no local
  delay variables (\<^verbatim>\<open>self.local_delay_vars = Collector()\<close>).
\<close>

definition DynamicalSystem_init :: "string \<Rightarrow> node_class \<Rightarrow> node" where
  "DynamicalSystem_init nm c = \<lparr>name = nm, cls = c, local_delay_vars = []\<rparr>"


text \<open>
  What a caller can pass to \<^verbatim>\<open>Container.__init__\<close>: a dynamical system, a list or
  tuple, a dictionary, or anything else.
\<close>

datatype pyobj =
    Node node
  | Seq "pyobj list"
  | Dict "(string \<times> pyobj) list"
  | NonNode

text \<open>
  \<^verbatim>\<open>d[k] = v\<close> on \<^verbatim>\<open>self.implicit_nodes\<close> and \<^verbatim>\<open>self.local_delay_vars\<close>. Both are
  \<^verbatim>\<open>Collector\<close> dictionaries, a class of \<^verbatim>\<open>brainpy/base/collector.py\<close>, which is
  not among the sources. The source only shows the item assignment; whether the
  collector refuses to rebind a key that already holds another object is therefore a
  parameter \<open>conflict old new\<close> of the model: \<open>\<lambda>_ _. False\<close> is a plain
  dictionary, \<open>\<lambda>old new. old \<noteq> new\<close> a collector that rejects a second object
  under a used name. An accepted assignment keeps a present key at its position and
  appends a new one (Python dictionaries are insertion-ordered).
\<close>

definition setitem ::
  "('v \<Rightarrow> 'v \<Rightarrow> bool) \<Rightarrow> (string \<times> 'v) list \<Rightarrow> string \<Rightarrow> 'v \<Rightarrow> error + (string \<times> 'v) list" where
  "setitem conflict d k v =
     (case map_of d k of
        None \<Rightarrow> Inr (AList.update k v d)
      | Some old \<Rightarrow>
          if conflict old v then Inl (ValueError (''Name conflicts: '' @ k))
          else Inr (AList.update k v d))"

text \<open>
  The inner loop of the list/tuple branch of \<^verbatim>\<open>Container.__init__\<close>:
  \<^verbatim>\<open>
        for m in module:
          if not isinstance(m, DynamicalSystem):
            raise ValueError(...)
          self.implicit_nodes[m.name] = module
  \<close>
  The value stored under each member's name is \<^verbatim>\<open>module\<close>, the whole list.
\<close>

fun add_members ::
  "(pyobj \<Rightarrow> pyobj \<Rightarrow> bool) \<Rightarrow> pyobj \<Rightarrow> pyobj list \<Rightarrow> (string \<times> pyobj) list
    \<Rightarrow> error + (string \<times> pyobj) list" where
  "add_members conflict module [] d = Inr d"
| "add_members conflict module (m # ms) d =
     (case m of
        Node n \<Rightarrow>
          (case setitem conflict d (name n) module of
             Inl e \<Rightarrow> Inl e
           | Inr d' \<Rightarrow> add_members conflict module ms d')
      | _ \<Rightarrow> Inl (ValueError ''Should be instance of DynamicalSystem.''))"

text \<open>
  The loop over a dictionary argument and over the keyword arguments:
  \<^verbatim>\<open>
        for k, v in module.items():
          if not isinstance(v, DynamicalSystem):
            raise ValueError(...)
          self.implicit_nodes[k] = v
  \<close>
\<close>

fun add_items ::
  "(pyobj \<Rightarrow> pyobj \<Rightarrow> bool) \<Rightarrow> (string \<times> pyobj) list \<Rightarrow> (string \<times> pyobj) list
    \<Rightarrow> error + (string \<times> pyobj) list" where
  "add_items conflict [] d = Inr d"
| "add_items conflict ((k, v) # kvs) d =
     (case v of
        Node n \<Rightarrow>
          (case setitem conflict d k v of
             Inl e \<Rightarrow> Inl e
           | Inr d' \<Rightarrow> add_items conflict kvs d')
      | _ \<Rightarrow> Inl (ValueError ''Should be instance of DynamicalSystem.''))"

text \<open>The loop \<^verbatim>\<open>for module in ds_tuple\<close> over the positional arguments.\<close>

fun add_modules ::
  "(pyobj \<Rightarrow> pyobj \<Rightarrow> bool) \<Rightarrow> pyobj list \<Rightarrow> (string \<times> pyobj) list
    \<Rightarrow> error + (string \<times> pyobj) list" where
  "add_modules conflict [] d = Inr d"
| "add_modules conflict (module # modules) d =
     (case (case module of
              Node n \<Rightarrow> setitem conflict d (name n) module
            | Seq ms \<Rightarrow> add_members conflict module ms d
            | Dict kvs \<Rightarrow> add_items conflict kvs d
            | NonNode \<Rightarrow> Inl (ValueError ''Cannot parse sub-systems.'')) of
        Inl e \<Rightarrow> Inl e
      | Inr d' \<Rightarrow> add_modules conflict modules d')"

text \<open>
  \<^verbatim>\<open>Container.__init__(*ds_tuple, **ds_dict)\<close>: the child map \<^verbatim>\<open>self.implicit_nodes\<close>
  of the new container, or the error that aborts the construction. The map starts
  empty (the base class creates it).
\<close>

definition Container_init ::
  "(pyobj \<Rightarrow> pyobj \<Rightarrow> bool) \<Rightarrow> pyobj list \<Rightarrow> (string \<times> pyobj) list
    \<Rightarrow> error + (string \<times> pyobj) list" where
  "Container_init conflict ds_tuple ds_dict =
     (case add_modules conflict ds_tuple [] of
        Inl e \<Rightarrow> Inl e
      | Inr d \<Rightarrow> add_items conflict ds_dict d)"

text \<open>\<^verbatim>\<open>Container.__getitem__\<close> and the child branch of \<^verbatim>\<open>__getattr__\<close>.\<close>

definition Container_getitem :: "(string \<times> pyobj) list \<Rightarrow> string \<Rightarrow> error + pyobj" where
  "Container_getitem implicit_nodes item =
     (case map_of implicit_nodes item of
        Some child \<Rightarrow> Inr child
      | None \<Rightarrow> Inl (ValueError (''Unknown item '' @ item)))"

text \<open>
  \<^verbatim>\<open>__getattr__\<close> of \<^verbatim>\<open>Container\<close> and \<^verbatim>\<open>Sequential\<close>: a name of the child map gives
  the child; any other name goes to the ordinary attribute lookup, which is \<open>None\<close>
  here (the object's own attributes are not part of the model).
\<close>

definition Container_getattr :: "(string \<times> pyobj) list \<Rightarrow> string \<Rightarrow> pyobj option" where
  "Container_getattr implicit_nodes item = map_of implicit_nodes item"

section \<open>Indexing a \<^verbatim>\<open>Sequential\<close>\<close>

text \<open>
  An element of a list or tuple key: a Python \<^verbatim>\<open>int\<close>, an object that is not an
  \<^verbatim>\<open>int\<close> but that a tuple accepts as an index through \<^verbatim>\<open>__index__\<close> (a NumPy
  integer), or any other object.
\<close>

datatype index = PyInt int | IndexLike int | NotIndex

text \<open>The keys \<^verbatim>\<open>Sequential.__getitem__\<close> tells apart, in the order of its tests.\<close>

datatype key =
    KStr string
  | KSlice "int option" "int option" "int option"
  | KInt int
  | KSeq "index list"
  | KOther

text \<open>
  \<^verbatim>\<open>xs[i]\<close> on a tuple: a negative index counts from the end, an index out of range
  raises \<open>IndexError\<close>.
\<close>

definition tuple_get :: "'a list \<Rightarrow> int \<Rightarrow> error + 'a" where
  "tuple_get xs i =
     (let n = int (length xs); j = (if i < 0 then n + i else i)
      in if 0 \<le> j \<and> j < n then Inr (xs ! nat j) else Inl IndexError)"

text \<open>
  The positions \<^verbatim>\<open>xs[start:stop:step]\<close> selects from a tuple of length \<open>len\<close>
  (Python's \<^verbatim>\<open>slice.indices\<close> followed by \<^verbatim>\<open>range\<close>).
\<close>

definition slice_indices :: "int option \<Rightarrow> int option \<Rightarrow> int option \<Rightarrow> nat \<Rightarrow> error + nat list" where
  "slice_indices start stop step len =
     (let st = (case step of None \<Rightarrow> 1 | Some s \<Rightarrow> s) in
      if st = 0 then Inl (ValueError ''slice step cannot be zero'')
      else
        let n = int len;
            lower = (if st < 0 then - 1 else 0);
            upper = (if st < 0 then n - 1 else n);
            a = (case start of
                   None \<Rightarrow> (if st < 0 then upper else lower)
                 | Some s \<Rightarrow> (if s < 0 then max (s + n) lower else min s upper));
            b = (case stop of
                   None \<Rightarrow> (if st < 0 then lower else upper)
                 | Some s \<Rightarrow> (if s < 0 then max (s + n) lower else min s upper));
            cnt = (if 0 < st then (if a < b then (b - a - 1) div st + 1 else 0)
                   else (if b < a then (a - b - 1) div (- st) + 1 else 0))
        in Inr (map (\<lambda>k. nat (a + int k * st)) [0..<nat cnt]))"

text \<open>
  The loop of the list/tuple branch:
  \<^verbatim>\<open>
      for i in key:
        if isinstance(i, int):
          raise KeyError(f'We excepted a tuple/list of int, but we got {type(i)}')
        keys.append(all_keys[i])
        vals.append(all_vals[i])
  \<close>
  The test raises for an element that is an \<^verbatim>\<open>int\<close>.
\<close>

fun select_items ::
  "(string \<times> pyobj) list \<Rightarrow> index list \<Rightarrow> (string \<times> pyobj) list \<Rightarrow> error + (string \<times> pyobj) list" where
  "select_items d [] acc = Inr acc"
| "select_items d (i # is) acc =
     (case i of
        PyInt j \<Rightarrow> Inl (KeyError ''We excepted a tuple/list of int, but we got int'')
      | IndexLike j \<Rightarrow>
          (case tuple_get d j of
             Inl e \<Rightarrow> Inl e
           | Inr kv \<Rightarrow> select_items d is (acc @ [kv]))
      | NotIndex \<Rightarrow> Inl TypeError)"

text \<open>
  \<^verbatim>\<open>dict(zip(keys, vals))\<close>: a later pair with a key already present replaces the value
  at the key's first position.
\<close>

definition dict_of :: "(string \<times> 'v) list \<Rightarrow> (string \<times> 'v) list" where
  "dict_of kvs = foldl (\<lambda>d (k, v). AList.update k v d) [] kvs"

text \<open>
  \<^verbatim>\<open>Sequential.__getitem__\<close>. The result is a child (\<open>Inl\<close> of the sum in the value)
  or the child map of a new \<^verbatim>\<open>Sequential\<close> built by \<^verbatim>\<open>Container.__init__\<close> from a
  dictionary (\<open>Inr\<close>). The integer branch subscripts \<^verbatim>\<open>self.implicit_nodes.values()\<close>
  directly; the view a dictionary returns from \<^verbatim>\<open>values()\<close> cannot be subscripted
  (the other branches convert it with \<^verbatim>\<open>tuple(...)\<close> first), which is a \<open>TypeError\<close>.
  The branch for a name that is not a child means to raise a \<open>KeyError\<close>, but its
  message formats \<^verbatim>\<open>str(self)\<close>: \<^verbatim>\<open>__repr__\<close> enumerates the container, the
  enumeration asks for \<^verbatim>\<open>self[0]\<close>, and the integer branch raises its \<open>TypeError\<close>
  before the \<open>KeyError\<close> exists.
\<close>

definition Sequential_getitem ::
  "(pyobj \<Rightarrow> pyobj \<Rightarrow> bool) \<Rightarrow> (string \<times> pyobj) list \<Rightarrow> key
    \<Rightarrow> error + (pyobj + (string \<times> pyobj) list)" where
  "Sequential_getitem conflict implicit_nodes k =
     (case k of
        KStr s \<Rightarrow>
          (case map_of implicit_nodes s of
             None \<Rightarrow> Inl TypeError
           | Some child \<Rightarrow> Inr (Inl child))
      | KSlice start stop step \<Rightarrow>
          (case slice_indices start stop step (length implicit_nodes) of
             Inl e \<Rightarrow> Inl e
           | Inr js \<Rightarrow>
               (case Container_init conflict [Dict (dict_of (map (\<lambda>j. implicit_nodes ! j) js))] [] of
                  Inl e \<Rightarrow> Inl e
                | Inr d \<Rightarrow> Inr (Inr d)))
      | KInt i \<Rightarrow> Inl TypeError
      | KSeq is \<Rightarrow>
          (case select_items implicit_nodes is [] of
             Inl e \<Rightarrow> Inl e
           | Inr kvs \<Rightarrow>
               (case Container_init conflict [Dict (dict_of kvs)] [] of
                  Inl e \<Rightarrow> Inl e
                | Inr d \<Rightarrow> Inr (Inr d)))
      | KOther \<Rightarrow> Inl (KeyError ''Unknown type of key''))"

section \<open>The conductance-based neuron group\<close>

text \<open>
  The state of a \<^verbatim>\<open>CondNeuGroup\<close> that \<^verbatim>\<open>update\<close> reads and writes: the membrane
  potential \<^verbatim>\<open>V\<close>, the external-input accumulator \<^verbatim>\<open>input\<close>, the spike flags, the
  threshold \<^verbatim>\<open>V_th\<close> and the owned channels (the children that are \<^verbatim>\<open>Channel\<close>
  instances, by name). Tensors are lists of elements. The element type only needs the two
  comparisons the code uses and a zero: nothing is assumed about the order, as for
  floating-point numbers.
\<close>

record ('a, 'c) cond_neu_group =
  V :: "'a list"
  input :: "'a list"
  spike :: "bool list"
  V_th :: 'a
  channels :: "(string \<times> 'c) list"

text \<open>
  \<^verbatim>\<open>
    for node in channels.values():
      node.update(tdi, self.V.value)
  \<close>
  A channel's \<^verbatim>\<open>update\<close> is the subclass's; it gets the shared arguments and a voltage,
  changes the channel's own state or raises.
\<close>

fun update_channels ::
  "('t \<Rightarrow> 'a list \<Rightarrow> 'c \<Rightarrow> error + 'c) \<Rightarrow> 't \<Rightarrow> 'a list \<Rightarrow> (string \<times> 'c) list
    \<Rightarrow> error + (string \<times> 'c) list" where
  "update_channels upd tdi v [] = Inr []"
| "update_channels upd tdi v ((nm, ch) # chs) =
     (case upd tdi v ch of
        Inl e \<Rightarrow> Inl e
      | Inr ch' \<Rightarrow>
          (case update_channels upd tdi v chs of
             Inl e \<Rightarrow> Inl e
           | Inr chs' \<Rightarrow> Inr ((nm, ch') # chs')))"

text \<open>
  \<^verbatim>\<open>CondNeuGroup.update\<close>, statement by statement:
  \<^verbatim>\<open>
    V = self.integral(self.V.value, tdi['t'], tdi['dt'])
    channels = self.nodes(level=1, include_self=False).subset(Channel).unique()
    for node in channels.values():
      node.update(tdi, self.V.value)
    self.spike.value = bm.logical_and(V >= self.V_th, self.V < self.V_th)
    self.input[:] = 0.
    self.V.value = V
  \<close>
  The integrator is the injected collaborator: a function of the voltage, the time and
  the step, which also reads the group (the derivative it integrates sums the input
  accumulator and the channels' currents). The shared arguments \<^verbatim>\<open>tdi\<close> are a
  dictionary; a missing \<^verbatim>\<open>'t'\<close> or \<^verbatim>\<open>'dt'\<close> is a \<open>KeyError\<close>.
\<close>

definition CondNeuGroup_update ::
  "(('a::{ord,zero}, 'c) cond_neu_group \<Rightarrow> 'a list \<Rightarrow> 'r \<Rightarrow> 'r \<Rightarrow> 'a list)
    \<Rightarrow> ((string \<rightharpoonup> 'r) \<Rightarrow> 'a list \<Rightarrow> 'c \<Rightarrow> error + 'c)
    \<Rightarrow> (string \<rightharpoonup> 'r) \<Rightarrow> ('a, 'c) cond_neu_group \<Rightarrow> error + ('a, 'c) cond_neu_group" where
  "CondNeuGroup_update integral upd tdi g =
     (case tdi ''t'' of
        None \<Rightarrow> Inl (KeyError ''t'')
      | Some t \<Rightarrow>
     (case tdi ''dt'' of
        None \<Rightarrow> Inl (KeyError ''dt'')
      | Some dt \<Rightarrow>
     (let Vnew = integral g (V g) t dt in
      case update_channels upd tdi (V g) (channels g) of
        Inl e \<Rightarrow> Inl e
      | Inr chs \<Rightarrow>
          (let g1 = g\<lparr>channels := chs\<rparr>;
               g2 = g1\<lparr>spike := map2 (\<lambda>vnew vold. V_th g1 \<le> vnew \<and> vold < V_th g1) Vnew (V g1)\<rparr>;
               g3 = g2\<lparr>input := replicate (length (input g2)) 0\<rparr>
           in Inr (g3\<lparr>V := Vnew\<rparr>)))))"

section \<open>Delay buffers\<close>

text \<open>
  Modelled from the spec: \<^verbatim>\<open>bm.LengthDelay\<close>, which is not among the sources. The spec
  describes it as a fixed-size history of a target tensor's values over the last
  \<open>max_delay_step + 1\<close> ticks: the value at lag \<open>d\<close> is what the target held \<open>d\<close>
  refreshes ago, and a slot that no refresh has reached yet holds the initial fill value.
  \<open>data b ! d\<close> is the value at lag \<open>d\<close>; \<^verbatim>\<open>num_delay_step\<close>, the attribute
  \<^verbatim>\<open>register_delay\<close> reads, is the number of slots.
\<close>

record 'a length_delay =
  data :: "'a list list"

definition num_delay_step :: "'a length_delay \<Rightarrow> nat" where
  "num_delay_step b = length (data b)"

text \<open>
  Modelled from the spec: the constructor \<^verbatim>\<open>LengthDelay(delay_target, delay_len,
  initial_delay_data)\<close>. Lag 0 holds the target's current value, the \<open>delay_len\<close> older
  slots hold the initial fill value (zeros when none is given).
\<close>

definition LengthDelay :: "'a::zero list \<Rightarrow> nat \<Rightarrow> 'a list option \<Rightarrow> 'a length_delay" where
  "LengthDelay target_value delay_len initial_delay_data =
     \<lparr>data = target_value #
        replicate delay_len
          (case initial_delay_data of
             None \<Rightarrow> replicate (length target_value) 0
           | Some fill \<Rightarrow> fill)\<rparr>"

text \<open>
  Modelled from the spec: \<^verbatim>\<open>LengthDelay.update(value)\<close>, one refresh. The new value
  enters at lag 0, every recorded value moves one lag up and the oldest leaves.
\<close>

definition LengthDelay_update :: "'a list \<Rightarrow> 'a length_delay \<Rightarrow> 'a length_delay" where
  "LengthDelay_update v b = b\<lparr>data := take (num_delay_step b) (v # data b)\<rparr>"

text \<open>
  Modelled from the spec: \<^verbatim>\<open>LengthDelay.reset(delay_target, delay_len,
  initial_delay_data)\<close>. The spec has a re-registration with a larger step count
  "resize/reinitialize" the buffer, and \<^verbatim>\<open>reset_local_delays\<close> of the source calls
  the same method with the target's value alone to set a buffer back after a state reset:
  the method builds the buffer anew, as the constructor does. Without a \<open>delay_len\<close>
  the number of slots stays.
\<close>

definition LengthDelay_reset ::
  "'a::zero list \<Rightarrow> nat option \<Rightarrow> 'a list option \<Rightarrow> 'a length_delay \<Rightarrow> 'a length_delay" where
  "LengthDelay_reset target_value delay_len initial_delay_data b =
     LengthDelay target_value
       (case delay_len of None \<Rightarrow> num_delay_step b - 1 | Some l \<Rightarrow> l)
       initial_delay_data"

text \<open>
  Modelled from the spec: calling the buffer, \<^verbatim>\<open>delay(delay_step, *indices)\<close>. With
  a scalar lag it gives the value at that lag (at the given element positions when indices
  are supplied); with one lag per position it gives, for each \<open>k\<close>, element
  \<open>indices ! k\<close> of the value at lag \<open>steps ! k\<close>. A lag beyond the recorded slots, a
  position outside the tensor and index arrays of different lengths are errors.
\<close>

definition retrieve_homo :: "'a length_delay \<Rightarrow> nat \<Rightarrow> nat list option \<Rightarrow> error + 'a list" where
  "retrieve_homo b d indices =
     (if num_delay_step b \<le> d then Inl (ValueError ''The request delay length is too large.'')
      else (case indices of
              None \<Rightarrow> Inr (data b ! d)
            | Some idx \<Rightarrow>
                if list_all (\<lambda>i. i < length (data b ! d)) idx
                then Inr (map (\<lambda>i. data b ! d ! i) idx)
                else Inl IndexError))"

definition retrieve_heter :: "'a length_delay \<Rightarrow> nat list \<Rightarrow> nat list \<Rightarrow> error + 'a list" where
  "retrieve_heter b ds idx =
     (if length ds \<noteq> length idx then Inl (ValueError ''shape mismatch'')
      else if list_ex (\<lambda>d. num_delay_step b \<le> d) ds
        then Inl (ValueError ''The request delay length is too large.'')
      else if list_all2 (\<lambda>d i. i < length (data b ! d)) ds idx
        then Inr (map2 (\<lambda>d i. data b ! d ! i) ds idx)
      else Inl IndexError)"

section \<open>Delay registration\<close>

text \<open>
  A delay target: a \<^verbatim>\<open>bm.Variable\<close> (a mutable object, named by its address in the
  store) or a tensor that is not a \<^verbatim>\<open>Variable\<close>.
\<close>

datatype 'a target = Variable nat | NotVariable "'a list"

text \<open>
  The objects the delay code shares by reference, as an explicit store:
  \<^verbatim>\<open>Variable\<close> objects with their current value, \<^verbatim>\<open>LengthDelay\<close> objects (with
  the next free address, for the constructor), and the class-level dictionary
  \<^verbatim>\<open>DynamicalSystem.global_delay_data\<close> from identifiers to pairs of an optional buffer
  and a target.
\<close>

record 'a world =
  variables :: "nat \<Rightarrow> 'a list"
  delays :: "nat \<Rightarrow> 'a length_delay"
  next_delay :: nat
  global_delay_data :: "string \<rightharpoonup> (nat option \<times> 'a target)"

text \<open>\<^verbatim>\<open>target.value\<close> and \<^verbatim>\<open>target.shape[0]\<close>.\<close>

definition target_value :: "'a world \<Rightarrow> 'a target \<Rightarrow> error + 'a list" where
  "target_value w tgt =
     (case tgt of Variable v \<Rightarrow> Inr (variables w v) | NotVariable xs \<Rightarrow> Inl AttributeError)"

definition target_len :: "'a world \<Rightarrow> 'a target \<Rightarrow> nat" where
  "target_len w tgt = (case tgt of Variable v \<Rightarrow> length (variables w v) | NotVariable xs \<Rightarrow> length xs)"

datatype dtype = Int32 | Int64 | OtherDtype

text \<open>
  The \<^verbatim>\<open>delay_step\<close> argument of \<^verbatim>\<open>register_delay\<close> when it is not \<^verbatim>\<open>None\<close>: an
  integer (or a 0-dimensional array of size 1), an array with its element type, a
  callable or initializer (given by the array \<^verbatim>\<open>brainpy.initialize.parameter\<close>, a
  function outside the sources, makes of it for the target's shape), or an object of
  another type. Step counts are natural numbers: the spec's delays are non-negative.
  The array library works in 32-bit integers: it refuses an integer step at or above
  \<open>2 ^ 31\<close> with an \<open>OverflowError\<close>, and it narrows the elements of a wider array.
  The narrowing is not modelled: a step array with an element at or above \<open>2 ^ 31\<close>
  ends the model with the same error, so that no statement below speaks about such steps.
\<close>

datatype step_spec =
    IntStep nat
  | ArrayStep dtype "nat list"
  | CallableStep dtype "nat list"
  | OtherStep

text \<open>The normalized step specification \<^verbatim>\<open>register_delay\<close> returns for later lookups.\<close>

datatype delay_step = Homo nat | Heter dtype "nat list"

text \<open>
  The first part of \<^verbatim>\<open>register_delay\<close> (the source's comment \<^verbatim>\<open># delay steps\<close>): the
  kind of delay, the checks of a heterogeneous step array and
  \<^verbatim>\<open>max_delay_step = int(bm.max(delay_step))\<close> (the maximum of an empty array is an
  error of the array library).
\<close>

definition heter_steps :: "'a world \<Rightarrow> 'a target \<Rightarrow> dtype \<Rightarrow> nat list \<Rightarrow> error + delay_step \<times> nat" where
  "heter_steps w delay_target dt arr =
     (if dt \<noteq> Int32 \<and> dt \<noteq> Int64 then Inl (ValueError ''Only support delay steps of int32, int64.'')
      else if target_len w delay_target \<noteq> length arr then Inl (ValueError ''Shape is mismatched'')
      else if arr = [] then Inl (ValueError ''zero-size array to reduction operation max'')
      else if list_ex (\<lambda>d. 2 ^ 31 \<le> d) arr then Inl OverflowError
      else Inr (Heter dt arr, Max (set arr)))"

definition delay_steps :: "'a world \<Rightarrow> 'a target \<Rightarrow> step_spec \<Rightarrow> error + delay_step \<times> nat" where
  "delay_steps w delay_target spec =
     (case spec of
        IntStep n \<Rightarrow> if 2 ^ 31 \<le> n then Inl OverflowError else Inr (Homo n, n)
      | ArrayStep dt arr \<Rightarrow> heter_steps w delay_target dt arr
      | CallableStep dt arr \<Rightarrow> heter_steps w delay_target dt arr
      | OtherStep \<Rightarrow> Inl (ValueError ''Unknown delay_steps type''))"

text \<open>
  The two places of \<^verbatim>\<open>register_delay\<close> that build a new buffer:
  \<^verbatim>\<open>
        delay = bm.LengthDelay(delay_target, max_delay_step, initial_delay_data)
        self.global_delay_data[identifier] = (delay, delay_target)
        self.local_delay_vars[identifier] = delay
  \<close>
\<close>

definition new_delay ::
  "(nat \<Rightarrow> nat \<Rightarrow> bool) \<Rightarrow> node \<Rightarrow> 'a::zero world \<Rightarrow> string \<Rightarrow> nat \<Rightarrow> nat \<Rightarrow> 'a list option
    \<Rightarrow> error option \<times> node \<times> 'a world" where
  "new_delay conflict self w identifier v max_delay_step initial_delay_data =
     (let r = next_delay w;
          w' = w\<lparr>delays := (delays w)(r := LengthDelay (variables w v) max_delay_step initial_delay_data),
                 next_delay := Suc r,
                 global_delay_data := (global_delay_data w)(identifier \<mapsto> (Some r, Variable v))\<rparr>
      in case setitem conflict (local_delay_vars self) identifier r of
           Inl e \<Rightarrow> (Some e, self, w')
         | Inr l \<Rightarrow> (None, self\<lparr>local_delay_vars := l\<rparr>, w'))"

text \<open>
  The closing call \<^verbatim>\<open>self.register_implicit_nodes(self.local_delay_vars)\<close> of
  \<^verbatim>\<open>register_delay\<close>. \<^verbatim>\<open>CondNeuGroup\<close> overrides the method:
  \<^verbatim>\<open>
  def register_implicit_nodes(self, *channels, **named_channels):
    check_master(type(self), *channels, **named_channels)
    super(CondNeuGroup, self).register_implicit_nodes(*channels, **named_channels)
  \<close>
  and \<^verbatim>\<open>check_master\<close> hands every value of a dictionary argument to \<^verbatim>\<open>_check\<close>,
  which raises \<open>ValueError\<close> for an object without a \<^verbatim>\<open>master_type\<close>: every delay
  buffer. So the call raises for a \<^verbatim>\<open>CondNeuGroup\<close> that has a local delay variable.
  Otherwise it is the method of the base class \<^verbatim>\<open>Base\<close>, which is not among the sources
  and is the parameter \<open>base\<close>: it publishes the buffers among the node's children
  and returns (\<open>None\<close>) or raises; it changes nothing the model holds.
\<close>

definition register_implicit_nodes :: "(node \<Rightarrow> error option) \<Rightarrow> node \<Rightarrow> error option" where
  "register_implicit_nodes base self =
     (if cls self = CondNeuGroup \<and> local_delay_vars self \<noteq> []
      then Some (ValueError ''Child class should define master_type to specify the type of the master.'')
      else base self)"

text \<open>
  How a call of \<^verbatim>\<open>register_delay\<close> that has reached its last two lines ends: the closing
  call, then \<^verbatim>\<open>return delay_step\<close>. The node and the store are what the lines before
  have made of them, whether the closing call raises or not.
\<close>

definition closing_call ::
  "(node \<Rightarrow> error option) \<Rightarrow> 'r \<Rightarrow> node \<Rightarrow> 'w \<Rightarrow> (error + 'r) \<times> node \<times> 'w" where
  "closing_call base ret self w =
     (case register_implicit_nodes base self of
        None \<Rightarrow> (Inr ret, self, w)
      | Some e \<Rightarrow> (Inl e, self, w))"

text \<open>
  \<^verbatim>\<open>DynamicalSystem.register_delay\<close>. The result is how the call ends (the exception,
  or the returned step specification) together with the node and the store as the call
  leaves them: an exception does not undo what earlier lines wrote.
\<close>

definition register_delay ::
  "(node \<Rightarrow> error option) \<Rightarrow> (nat \<Rightarrow> nat \<Rightarrow> bool) \<Rightarrow> node \<Rightarrow> 'a::zero world \<Rightarrow> string
    \<Rightarrow> step_spec option \<Rightarrow> 'a target \<Rightarrow> 'a list option
    \<Rightarrow> (error + delay_step option) \<times> node \<times> 'a world" where
  "register_delay base conflict self w identifier delay_step delay_target initial_delay_data =
     (case delay_step of
        None \<Rightarrow>
          closing_call base None self
            (w\<lparr>global_delay_data := (global_delay_data w)(identifier \<mapsto> (None, delay_target))\<rparr>)
      | Some spec \<Rightarrow>
     (case delay_steps w delay_target spec of
        Inl e \<Rightarrow> (Inl e, self, w)
      | Inr (steps, max_delay_step) \<Rightarrow>
     (case delay_target of
        NotVariable xs \<Rightarrow> (Inl (ValueError ''delay_target must be an instance of Variable''), self, w)
      | Variable v \<Rightarrow>
     (case global_delay_data w identifier of
        None \<Rightarrow>
          (case new_delay conflict self w identifier v max_delay_step initial_delay_data of
             (Some e, self', w') \<Rightarrow> (Inl e, self', w')
           | (None, self', w') \<Rightarrow> closing_call base (Some steps) self' w')
      | Some (None, tgt) \<Rightarrow>
          (case new_delay conflict self w identifier v max_delay_step initial_delay_data of
             (Some e, self', w') \<Rightarrow> (Inl e, self', w')
           | (None, self', w') \<Rightarrow> closing_call base (Some steps) self' w')
      | Some (Some r, tgt) \<Rightarrow>
          if int (num_delay_step (delays w r)) - 1 < int max_delay_step
          then closing_call base (Some steps) self
                 (w\<lparr>delays := (delays w)(r :=
                      LengthDelay_reset (variables w v) (Some max_delay_step) initial_delay_data
                        (delays w r))\<rparr>)
          else closing_call base (Some steps) self w))))"

text \<open>
  \<^verbatim>\<open>DynamicalSystem.get_delay_data(identifier, delay_step, *indices)\<close>, with at most
  one index array. A \<^verbatim>\<open>None\<close> step reads the global dictionary without a test (a
  missing key is the dictionary's \<open>KeyError\<close>); a \<^verbatim>\<open>None\<close> buffer cannot be
  called (\<open>TypeError\<close>); the local branch with a scalar step drops the indices.
\<close>

definition get_delay_data ::
  "node \<Rightarrow> 'a world \<Rightarrow> string \<Rightarrow> delay_step option \<Rightarrow> nat list option \<Rightarrow> error + 'a list" where
  "get_delay_data self w identifier delay_step indices =
     (case delay_step of
        None \<Rightarrow>
          (case global_delay_data w identifier of
             None \<Rightarrow> Inl (KeyError identifier)
           | Some (buf, tgt) \<Rightarrow> target_value w tgt)
      | Some steps \<Rightarrow>
     (case global_delay_data w identifier of
        Some (buf, tgt) \<Rightarrow>
          (case buf of
             None \<Rightarrow> Inl TypeError
           | Some r \<Rightarrow>
               (case steps of
                  Homo d \<Rightarrow> retrieve_homo (delays w r) d indices
                | Heter dt ds \<Rightarrow>
                    retrieve_heter (delays w r) ds
                      (case indices of None \<Rightarrow> [0..<length ds] | Some idx \<Rightarrow> idx)))
      | None \<Rightarrow>
          (case map_of (local_delay_vars self) identifier of
             Some r \<Rightarrow>
               (case steps of
                  Homo d \<Rightarrow> retrieve_homo (delays w r) d None
                | Heter dt ds \<Rightarrow>
                    retrieve_heter (delays w r) ds
                      (case indices of None \<Rightarrow> [0..<length ds] | Some idx \<Rightarrow> idx))
           | None \<Rightarrow> Inl (ValueError (identifier @ '' is not defined in delay variables.'')))))"

section \<open>The update pass of a \<^verbatim>\<open>Network\<close>\<close>

text \<open>
  The calls one \<^verbatim>\<open>Network.update\<close> makes, in the order it makes them: the probe the
  ordering claims are stated on. \<open>Updated n\<close> is the call \<^verbatim>\<open>n.update(shared)\<close>,
  \<open>Refreshed name\<close> the call \<^verbatim>\<open>delay.update(target.value)\<close> for a local delay
  variable.
\<close>

datatype event = Updated node | Refreshed string




text \<open>
  \<^verbatim>\<open>DynamicalSystem.update_local_delays(nodes)\<close>:
  \<^verbatim>\<open>
    for node in nodes:
      for name in node.local_delay_vars:
        delay = self.global_delay_data[name][0]
        target = self.global_delay_data[name][1]
        delay.update(target.value)
  \<close>
  \<open>refresh_delays\<close> is the body for a list of names. The buffer that is refreshed is
  the one the global dictionary holds under the name.
\<close>

fun refresh_delays ::
  "string list \<Rightarrow> event list \<times> 'a world \<Rightarrow> error option \<times> event list \<times> 'a world" where
  "refresh_delays [] (log, w) = (None, log, w)"
| "refresh_delays (nm # nms) (log, w) =
     (case global_delay_data w nm of
        None \<Rightarrow> (Some (KeyError nm), log, w)
      | Some (buf, tgt) \<Rightarrow>
          (case buf of
             None \<Rightarrow> (Some AttributeError, log, w)
           | Some r \<Rightarrow>
               (case target_value w tgt of
                  Inl e \<Rightarrow> (Some e, log, w)
                | Inr v \<Rightarrow>
                    refresh_delays nms
                      (log @ [Refreshed nm],
                       w\<lparr>delays := (delays w)(r := LengthDelay_update v (delays w r))\<rparr>))))"




section \<open>The order of a \<^verbatim>\<open>Network\<close> update, as the spec states it\<close>





section \<open>Example stores\<close>

text \<open>
  Concrete stores for the examples below. \<open>empty_store cur\<close>: nothing is registered
  and every variable holds \<open>cur\<close>. \<open>delay_example slots cur\<close>: the variable at address
  0 holds \<open>cur\<close> and is registered under \<^verbatim>\<open>'k'\<close> with the buffer at address 0, whose
  slots are \<open>slots\<close>. \<open>owner\<close> is the node that created that buffer.
\<close>

definition empty_store :: "int list \<Rightarrow> int world" where
  "empty_store cur =
     \<lparr>variables = (\<lambda>v. cur), delays = (\<lambda>r. \<lparr>data = []\<rparr>), next_delay = 0,
      global_delay_data = Map.empty\<rparr>"

definition delay_example :: "int list list \<Rightarrow> int list \<Rightarrow> int world" where
  "delay_example slots cur =
     \<lparr>variables = (\<lambda>v. cur), delays = (\<lambda>r. \<lparr>data = []\<rparr>)(0 := \<lparr>data = slots\<rparr>), next_delay = 1,
      global_delay_data = [''k'' \<mapsto> (Some 0, Variable 0)]\<rparr>"

definition owner :: node where
  "owner = \<lparr>name = ''n'', cls = NeuGroup, local_delay_vars = [(''k'', 0)]\<rparr>"

text \<open>
  The store after three registrations of \<^verbatim>\<open>'k'\<close> on a variable holding \<open>[1]\<close>:
  by \<open>owner\<close> with one step, by some node with \<^verbatim>\<open>None\<close>, and by \<open>second_owner\<close>
  with one step. Each owner has a buffer of its own among its local delay variables;
  the global dictionary holds the second one.
\<close>

definition second_owner :: node where
  "second_owner = \<lparr>name = ''c'', cls = NeuGroup, local_delay_vars = [(''k'', 1)]\<rparr>"

definition two_owner_store :: "int list list \<Rightarrow> int list list \<Rightarrow> int list \<Rightarrow> int world" where
  "two_owner_store slots0 slots1 cur =
     \<lparr>variables = (\<lambda>v. cur),
      delays = (\<lambda>r. \<lparr>data = []\<rparr>)(0 := \<lparr>data = slots0\<rparr>, 1 := \<lparr>data = slots1\<rparr>),
      next_delay = 2,
      global_delay_data = [''k'' \<mapsto> (Some 1, Variable 0)]\<rparr>"


section \<open>Properties of the shared context\<close>

lemma save_positional_all:
  "\<forall>i \<in> set is. i * 2 + 1 < length args \<Longrightarrow>
     save_positional args is m = (None, stored_by args is m)"
  by (induction "is" arbitrary: m) (auto simp: stored_by_def)

lemma save_positional_append:
  "save_positional args (is @ js) m =
     (case save_positional args is m of
        (Some e, m') \<Rightarrow> (Some e, m')
      | (None, m') \<Rightarrow> save_positional args js m')"
  by (induction "is" arbitrary: m) auto

lemma save_positional_fails_first:
  "js \<noteq> [] \<Longrightarrow> length args \<le> hd js * 2 + 1 \<Longrightarrow> save_positional args js m = (Some IndexError, m)"
  by (cases js) auto

lemma range_by_two_split:
  "n \<le> k \<Longrightarrow> range_by_two k = range_by_two n @ filter even [n..<k]"
proof -
  assume "n \<le> k"
  then have "[0..<k] = [0..<n] @ [n..<k]"
    using upt_add_eq_append [of 0 n "k - n"] by simp
  then show ?thesis
    by (simp add: range_by_two_def)
qed

lemma hd_filter_ge:
  "filter P [n..<k] \<noteq> [] \<Longrightarrow> n \<le> hd (filter P [n..<k])"
proof -
  assume "filter P [n..<k] \<noteq> []"
  then have "hd (filter P [n..<k]) \<in> set (filter P [n..<k])" by (rule hd_in_set)
  then show ?thesis by simp
qed

lemma save_many_pairs:
  assumes "even (length args)" and "4 \<le> length args"
  shows "save args kwargs m
           = (Some IndexError, stored_by args (range_by_two (length args div 2)) m)"
proof -
  let ?n = "length args div 2"
  let ?late = "filter even [?n..<length args]"
  have len: "length args = 2 * ?n" and n2: "2 \<le> ?n"
    using assms by auto
  have split: "range_by_two (length args) = range_by_two ?n @ ?late"
    by (rule range_by_two_split) simp
  have early: "save_positional args (range_by_two ?n) m = (None, stored_by args (range_by_two ?n) m)"
    by (rule save_positional_all) (use len in \<open>auto simp: range_by_two_def\<close>)
  have "even (length args - 2)" "?n \<le> length args - 2" "length args - 2 < length args"
    using assms len n2 by auto
  then have mem: "length args - 2 \<in> set ?late"
    by simp
  have ne: "?late \<noteq> []"
  proof
    assume "?late = []"
    with mem show False by (metis empty_iff list.set(1))
  qed
  from hd_filter_ge [OF ne] len have "length args \<le> hd ?late * 2 + 1" by linarith
  with ne have late: "save_positional args ?late m' = (Some IndexError, m')" for m'
    by (rule save_positional_fails_first)
  from assms(1) show ?thesis
    by (simp add: save_def split save_positional_append early late)
qed

lemma range_by_two_0: "range_by_two 0 = []"
  by (simp add: range_by_two_def)

lemma range_by_two_2: "range_by_two (Suc (Suc 0)) = [0]"
  by (simp add: range_by_two_def)

lemma save_no_pair: "save [] kwargs m = (None, save_keywords kwargs m)"
  by (simp add: save_def range_by_two_0)

lemma save_one_pair: "save [k, v] kwargs m = (None, save_keywords kwargs (m(k \<mapsto> v)))"
  by (simp add: save_def range_by_two_2)

lemma save_two_pairs: "save [k1, v1, k2, v2] kwargs m = (Some IndexError, m(k1 \<mapsto> v1))"
  using save_many_pairs [of "[k1, v1, k2, v2]" kwargs m]
  by (simp add: stored_by_def range_by_two_def)

lemma save_odd: "odd (length args) \<Longrightarrow> save args kwargs m = (Some AssertionError, m)"
  by (simp add: save_def odd_iff_mod_2_eq_one)

lemma save_keywords_stored:
  "distinct (map fst kwargs) \<Longrightarrow> (k, v) \<in> set kwargs \<Longrightarrow> save_keywords kwargs m (Str k) = Some v"
proof (induction kwargs arbitrary: m)
  case Nil
  then show ?case by simp
next
  case (Cons kv kwargs)
  obtain k' v' where kv: "kv = (k', v')" by (cases kv)
  have other: "save_keywords kwargs m' (Str k') = m' (Str k')" if "k' \<notin> fst ` set kwargs" for m'
    using that by (induction kwargs arbitrary: m') auto
  show ?case
  proof (cases "(k, v) \<in> set kwargs")
    case True
    with Cons show ?thesis by (simp add: kv)
  next
    case False
    with Cons.prems have "k = k'" "v = v'" "k' \<notin> fst ` set kwargs"
      by (auto simp: kv)
    then show ?thesis by (simp add: kv other)
  qed
qed

text \<open>
  Claim C10 on the code. A call of \<^verbatim>\<open>save\<close> with no positional argument stores every
  keyword-named scalar; with exactly one positional pair it stores that pair under the
  given key and then the keywords. With two or more positional pairs the loop index
  \<open>i\<close> advances by two and the loop reads positions \<open>2i\<close> and \<open>2i+1\<close> (positions 0
  and 1, then 4 and 5, ...): the call fails with an out-of-range index, and what it leaves
  in the context is exactly the pairs at those positions for the even \<open>i\<close> below the
  number of pairs. Every other pair and every keyword-named scalar is left unset: the
  keyword loop is never reached. So a call with exactly two pairs has stored the first
  pair and nothing else. An odd number of positional arguments fails the assertion and
  stores nothing. Whenever the call returns normally, every keyword-named scalar is
  stored.
\<close>

theorem save_behaviour:
  "save [] kwargs m = (None, save_keywords kwargs m)
   \<and> save [k, v] kwargs m = (None, save_keywords kwargs (m(k \<mapsto> v)))
   \<and> save [k1, v1, k2, v2] kwargs m = (Some IndexError, m(k1 \<mapsto> v1))
   \<and> (even (length args) \<and> 4 \<le> length args \<longrightarrow>
        save args kwargs m = (Some IndexError, stored_by args (range_by_two (length args div 2)) m))
   \<and> (odd (length args) \<longrightarrow> save args kwargs m = (Some AssertionError, m))
   \<and> (fst (save args kwargs m) = None \<and> distinct (map fst kwargs) \<and> (kw, d) \<in> set kwargs
        \<longrightarrow> snd (save args kwargs m) (Str kw) = Some d)"
proof -
  have "snd (save args kwargs m) (Str kw) = Some d"
    if "fst (save args kwargs m) = None" "distinct (map fst kwargs)" "(kw, d) \<in> set kwargs"
  proof -
    from that(1) obtain m' where "save args kwargs m = (None, save_keywords kwargs m')"
      by (auto simp: save_def split: if_splits prod.splits option.splits)
    with that(2,3) show ?thesis
      by (simp add: save_keywords_stored)
  qed
  then show ?thesis
    using save_no_pair save_one_pair save_two_pairs save_many_pairs save_odd
    by blast
qed

theorem save_behaviour_witness:
  "save [Str ''a'', Num 1, Str ''b'', Num 2, Str ''c'', Num 3] [(''x'', Num 7)] Map.empty
     = (Some IndexError, [Str ''a'' \<mapsto> Num 1, Str ''c'' \<mapsto> Num 3])
   \<and> save [Str ''a''] [(''x'', Num 7)] Map.empty = (Some AssertionError, Map.empty)
   \<and> snd (save [Str ''a'', Num 1] [(''x'', Num 7)] Map.empty) (Str ''x'') = Some (Num 7)"
proof -
  have none: "fst (save [Str ''a'', Num 1] [(''x'', Num 7)] Map.empty) = None"
    by (simp add: save_one_pair)
  have three: "range_by_two (Suc (Suc (Suc 0))) = [0, Suc (Suc 0)]"
    by (simp add: range_by_two_def)
  show ?thesis
    using save_behaviour [of "[(''x'', Num 7)]" Map.empty _ _ _ _ _ _
        "[Str ''a'', Num 1, Str ''b'', Num 2, Str ''c'', Num 3]" ]
      save_behaviour [of "[(''x'', Num 7)]" Map.empty _ _ _ _ _ _ "[Str ''a'']"]
      save_behaviour [of "[(''x'', Num 7)]" Map.empty _ _ _ _ _ _ "[Str ''a'', Num 1]" "''x''" "Num 7"]
      none
    by (simp add: three stored_by_def)
qed

text \<open>
  The call \<^verbatim>\<open>save('a', 1, 'b', 2, x=3)\<close> on an empty context: it fails in the positional
  loop and leaves both \<^verbatim>\<open>b\<close> and \<^verbatim>\<open>x\<close> unset.
\<close>

lemma save_two_pairs_and_keyword:
  "save [Str ''a'', Num 1, Str ''b'', Num 2] [(''x'', Num 3)] Map.empty
     = (Some IndexError, [Str ''a'' \<mapsto> Num 1])
   \<and> snd (save [Str ''a'', Num 1, Str ''b'', Num 2] [(''x'', Num 3)] Map.empty) (Str ''x'') = None
   \<and> snd (save [Str ''a'', Num 1, Str ''b'', Num 2] [(''x'', Num 3)] Map.empty) (Str ''b'') = None"
  by (simp add: save_two_pairs)

section \<open>Properties of container construction\<close>

lemma setitem_same:
  assumes "\<not> conflict v v" and "map_of d k = None \<or> map_of d k = Some v"
  shows "setitem conflict d k v = Inr (AList.update k v d)"
  using assms by (auto simp: setitem_def)

lemma add_members_same:
  assumes "\<not> conflict module module"
    and "\<forall>n \<in> set ns. map_of d (name n) = None \<or> map_of d (name n) = Some module"
    and "distinct (map fst d)"
  shows "\<exists>d'. add_members conflict module (map Node ns) d = Inr d'
           \<and> map_of d' = (\<lambda>k. if k \<in> name ` set ns then Some module else map_of d k)
           \<and> distinct (map fst d')"
  using assms(2,3)
proof (induction ns arbitrary: d)
  case Nil
  then show ?case by simp
next
  case (Cons n ns)
  let ?d1 = "AList.update (name n) module d"
  have step: "setitem conflict d (name n) module = Inr ?d1"
    using assms(1) Cons.prems(1) by (intro setitem_same) auto
  have m1: "map_of ?d1 = (map_of d)(name n \<mapsto> module)"
    by (rule update_conv')
  have "\<forall>n' \<in> set ns. map_of ?d1 (name n') = None \<or> map_of ?d1 (name n') = Some module"
    using Cons.prems(1) by (simp add: m1)
  moreover have "distinct (map fst ?d1)"
    using Cons.prems(2) by (rule distinct_update)
  ultimately obtain d' where d':
    "add_members conflict module (map Node ns) ?d1 = Inr d'"
    "map_of d' = (\<lambda>k. if k \<in> name ` set ns then Some module else map_of ?d1 k)"
    "distinct (map fst d')"
    using Cons.IH by blast
  have "map_of d' = (\<lambda>k. if k \<in> name ` set (n # ns) then Some module else map_of d k)"
    by (auto simp: d'(2) m1 fun_eq_iff)
  with step d'(1,3) show ?case by simp
qed

lemma Container_init_list:
  assumes "\<not> conflict (Seq (map Node ns)) (Seq (map Node ns))"
  shows "\<exists>d. Container_init conflict [Seq (map Node ns)] [] = Inr d
           \<and> map_of d = (\<lambda>k. if k \<in> name ` set ns then Some (Seq (map Node ns)) else None)
           \<and> distinct (map fst d)"
proof -
  obtain d where d: "add_members conflict (Seq (map Node ns)) (map Node ns) [] = Inr d"
    "map_of d = (\<lambda>k. if k \<in> name ` set ns then Some (Seq (map Node ns)) else map_of [] k)"
    "distinct (map fst d)"
    using add_members_same [of conflict "Seq (map Node ns)" ns "[]"] assms by auto
  from d(2) have "map_of d = (\<lambda>k. if k \<in> name ` set ns then Some (Seq (map Node ns)) else None)"
    by (auto simp: fun_eq_iff)
  with d(1,3) show ?thesis
    by (simp add: Container_init_def)
qed

text \<open>
  How the outcome for two bare positional nodes of one name depends on the collector's
  item assignment, which the sources do not show: a plain dictionary keeps the second
  node silently, a collector that refuses a second object under a used name raises.
  \<^verbatim>\<open>Container.__init__\<close> itself makes no test (the one it had is commented out).
\<close>

lemma Container_init_bare_duplicates:
  "Container_init (\<lambda>old new. False)
     [Node (DynamicalSystem_init ''a'' NeuGroup), Node (DynamicalSystem_init ''a'' SynConn)] []
     = Inr [(''a'', Node (DynamicalSystem_init ''a'' SynConn))]
   \<and> Container_init (\<lambda>old new. old \<noteq> new)
     [Node (DynamicalSystem_init ''a'' NeuGroup), Node (DynamicalSystem_init ''a'' SynConn)] []
     = Inl (ValueError ''Name conflicts: a'')"
  by (simp add: Container_init_def setitem_def DynamicalSystem_init_def)

text \<open>
  Claim C2 on the code. The claim has a construction with two children of one name fail,
  also when they come in a collection. In the list/tuple branch the value stored under
  every member's name is the list itself, so the second assignment under a repeated name
  stores the object that is already there: whatever the collector's item assignment does
  with a name that holds another object, it has nothing to refuse. For every list of
  nodes, repeated names or not, the construction returns normally, with one entry per
  distinct name.
\<close>

theorem Container_init_list_keeps_duplicates:
  assumes "\<not> conflict (Seq (map Node ns)) (Seq (map Node ns))"
  shows "\<exists>d. Container_init conflict [Seq (map Node ns)] [] = Inr d
           \<and> distinct (map fst d) \<and> fst ` set d = name ` set ns"
proof -
  obtain d where d: "Container_init conflict [Seq (map Node ns)] [] = Inr d"
    "map_of d = (\<lambda>k. if k \<in> name ` set ns then Some (Seq (map Node ns)) else None)"
    "distinct (map fst d)"
    using Container_init_list [of conflict ns] assms by blast
  have "dom (map_of d) = name ` set ns"
    by (auto simp: d(2) dom_def)
  then have "fst ` set d = name ` set ns"
    by (simp add: dom_map_of_conv_image_fst)
  with d show ?thesis by blast
qed

theorem Container_init_list_keeps_duplicates_witness:
  "\<exists>d. Container_init (\<lambda>old new. old \<noteq> new)
          [Seq [Node (DynamicalSystem_init ''a'' NeuGroup), Node (DynamicalSystem_init ''a'' SynConn)]] []
        = Inr d \<and> distinct (map fst d) \<and> fst ` set d = {''a''}"
  using Container_init_list_keeps_duplicates
    [of "\<lambda>old new. old \<noteq> new" "[DynamicalSystem_init ''a'' NeuGroup, DynamicalSystem_init ''a'' SynConn]"]
  by (simp add: DynamicalSystem_init_def)

text \<open>
  Claim C8 on the code. For a positional list or tuple of nodes the child map gets one
  key per member name, and the value under each of them is the whole list: looking a
  member up by its name gives the list and not the member, so no member is reachable as
  a child. (The dictionary and keyword branches store the node itself.)
\<close>

theorem Container_init_list_stores_list:
  assumes "\<not> conflict (Seq (map Node ns)) (Seq (map Node ns))"
  shows "\<exists>d. Container_init conflict [Seq (map Node ns)] [] = Inr d
           \<and> (\<forall>n \<in> set ns. Container_getitem d (name n) = Inr (Seq (map Node ns))
                              \<and> Container_getitem d (name n) \<noteq> Inr (Node n))"
proof -
  obtain d where d: "Container_init conflict [Seq (map Node ns)] [] = Inr d"
    "map_of d = (\<lambda>k. if k \<in> name ` set ns then Some (Seq (map Node ns)) else None)"
    using Container_init_list [of conflict ns] assms by blast
  then show ?thesis
    by (auto simp: Container_getitem_def)
qed

theorem Container_init_list_stores_list_witness:
  "Container_init (\<lambda>old new. old \<noteq> new)
     [Seq [Node (DynamicalSystem_init ''a'' NeuGroup), Node (DynamicalSystem_init ''b'' SynConn)]] []
   = Inr [(''a'', Seq [Node (DynamicalSystem_init ''a'' NeuGroup), Node (DynamicalSystem_init ''b'' SynConn)]),
          (''b'', Seq [Node (DynamicalSystem_init ''a'' NeuGroup), Node (DynamicalSystem_init ''b'' SynConn)])]
   \<and> Container_getitem
       [(''a'', Seq [Node (DynamicalSystem_init ''a'' NeuGroup), Node (DynamicalSystem_init ''b'' SynConn)]),
        (''b'', Seq [Node (DynamicalSystem_init ''a'' NeuGroup), Node (DynamicalSystem_init ''b'' SynConn)])]
       ''a''
     = Inr (Seq [Node (DynamicalSystem_init ''a'' NeuGroup), Node (DynamicalSystem_init ''b'' SynConn)])"
  using Container_init_list_stores_list
    [of "\<lambda>old new. old \<noteq> new" "[DynamicalSystem_init ''a'' NeuGroup, DynamicalSystem_init ''b'' SynConn]"]
  by (simp add: Container_init_def setitem_def DynamicalSystem_init_def Container_getitem_def)

lemma Container_init_rejects_non_node:
  "Container_init conflict [NonNode] kw = Inl (ValueError ''Cannot parse sub-systems.'')
   \<and> Container_init conflict [Seq [NonNode]] kw = Inl (ValueError ''Should be instance of DynamicalSystem.'')
   \<and> Container_init conflict [Seq [Seq ms]] kw = Inl (ValueError ''Should be instance of DynamicalSystem.'')"
  by (simp add: Container_init_def)

section \<open>Properties of \<^verbatim>\<open>Sequential\<close> indexing\<close>

lemma Sequential_by_name:
  "map_of implicit_nodes s = Some child \<Longrightarrow>
     Sequential_getitem conflict implicit_nodes (KStr s) = Inr (Inl child)
     \<and> Container_getattr implicit_nodes s = Some child"
  by (simp add: Sequential_getitem_def Container_getattr_def)

lemma Sequential_missing_name:
  "map_of implicit_nodes s = None \<Longrightarrow>
     Sequential_getitem conflict implicit_nodes (KStr s) = Inl TypeError"
  by (simp add: Sequential_getitem_def)

lemma Sequential_slice_example:
  "Sequential_getitem conflict
     [(''l1'', Node (DynamicalSystem_init ''a'' OtherDynSys)),
      (''l2'', Node (DynamicalSystem_init ''b'' OtherDynSys)),
      (''l3'', Node (DynamicalSystem_init ''c'' OtherDynSys))]
     (KSlice (Some 1) None None)
   = Inr (Inr [(''l2'', Node (DynamicalSystem_init ''b'' OtherDynSys)),
               (''l3'', Node (DynamicalSystem_init ''c'' OtherDynSys))])"
  by (simp add: Sequential_getitem_def slice_indices_def Container_init_def setitem_def
      dict_of_def upt_rec)

text \<open>
  Claim C9 on the code. Access by name and by slice work as the claim says. A list or
  tuple key whose first element is a Python integer raises the \<open>KeyError\<close> of the
  loop's type test, for every container (the test is inverted: it rejects what its own
  message asks for), and an integer key subscripts the dictionary's \<^verbatim>\<open>values()\<close> view,
  which raises \<open>TypeError\<close>: neither returns a child or a \<^verbatim>\<open>Sequential\<close>.
\<close>

theorem Sequential_getitem_int_indices_fail:
  "Sequential_getitem conflict implicit_nodes (KSeq (PyInt i # is))
     = Inl (KeyError ''We excepted a tuple/list of int, but we got int'')
   \<and> Sequential_getitem conflict implicit_nodes (KInt i) = Inl TypeError"
  by (simp add: Sequential_getitem_def)

section \<open>Properties of the conductance-based neuron group\<close>

lemma update_channels_all:
  "\<forall>ch \<in> snd ` set chs. upd tdi v ch = Inr (f ch)
   \<Longrightarrow> update_channels upd tdi v chs = Inr (map (\<lambda>(nm, ch). (nm, f ch)) chs)"
  by (induction chs) auto

lemma spike_elementwise:
  assumes "length vn = length vo" and "k < length vo"
  shows "map2 (\<lambda>vnew vold. th \<le> vnew \<and> vold < th) vn vo ! k \<longleftrightarrow> (vo ! k < th \<and> th \<le> vn ! k)"
  using assms by auto

text \<open>
  Claim C5. With \<open>t\<close> and \<open>dt\<close> in the shared arguments and channel updates that
  return, one \<^verbatim>\<open>update\<close> of a \<^verbatim>\<open>CondNeuGroup\<close> gives exactly this state: the voltage
  is the integrator's result, computed from the state before the call; every owned channel
  has been updated with the old voltage; the spike flag of each element is "old voltage
  below \<open>V_th\<close> and new voltage at or above \<open>V_th\<close>"; the input accumulator is zero
  everywhere; the threshold is unchanged. The new voltage is written last: the channels
  and the spike flags still read the old one.
\<close>

theorem CondNeuGroup_update_tick:
  assumes "tdi ''t'' = Some t" and "tdi ''dt'' = Some dt"
    and "\<forall>ch \<in> snd ` set (channels g). upd tdi (V g) ch = Inr (f ch)"
  shows "CondNeuGroup_update integral upd tdi g =
           Inr \<lparr>V = integral g (V g) t dt,
                input = replicate (length (input g)) 0,
                spike = map2 (\<lambda>vnew vold. V_th g \<le> vnew \<and> vold < V_th g)
                          (integral g (V g) t dt) (V g),
                V_th = V_th g,
                channels = map (\<lambda>(nm, ch). (nm, f ch)) (channels g)\<rparr>
         \<and> (length (integral g (V g) t dt) = length (V g) \<longrightarrow>
              (\<forall>k < length (V g).
                 map2 (\<lambda>vnew vold. V_th g \<le> vnew \<and> vold < V_th g) (integral g (V g) t dt) (V g) ! k
                 \<longleftrightarrow> (V g ! k < V_th g \<and> V_th g \<le> integral g (V g) t dt ! k)))"
proof -
  have "update_channels upd tdi (V g) (channels g) = Inr (map (\<lambda>(nm, ch). (nm, f ch)) (channels g))"
    by (rule update_channels_all) (use assms(3) in blast)
  with assms(1,2) have "CondNeuGroup_update integral upd tdi g =
           Inr \<lparr>V = integral g (V g) t dt,
                input = replicate (length (input g)) 0,
                spike = map2 (\<lambda>vnew vold. V_th g \<le> vnew \<and> vold < V_th g)
                          (integral g (V g) t dt) (V g),
                V_th = V_th g,
                channels = map (\<lambda>(nm, ch). (nm, f ch)) (channels g)\<rparr>"
    by (cases g) (simp add: CondNeuGroup_update_def Let_def)
  then show ?thesis
    using spike_elementwise [of "integral g (V g) t dt" "V g"] by blast
qed

theorem CondNeuGroup_update_tick_witness:
  "CondNeuGroup_update (\<lambda>g v t dt. map (\<lambda>x. x + dt * 2) v) (\<lambda>tdi v ch. Inr (ch + length v))
      [''t'' \<mapsto> 0, ''dt'' \<mapsto> 1]
      \<lparr>V = [- 1, 2 :: int], input = [5, 5], spike = [False, False], V_th = 0,
       channels = [(''na'', 0 :: nat)]\<rparr>
   = Inr \<lparr>V = [1, 4], input = [0, 0], spike = [True, False], V_th = 0, channels = [(''na'', 2)]\<rparr>"
  using CondNeuGroup_update_tick [of "[''t'' \<mapsto> 0, ''dt'' \<mapsto> 1]" 0 1
      "\<lparr>V = [- 1, 2 :: int], input = [5, 5], spike = [False, False], V_th = 0,
        channels = [(''na'', 0 :: nat)]\<rparr>"
      "\<lambda>tdi v ch. Inr (ch + length v)" "\<lambda>ch. ch + 2" "\<lambda>g v t dt. map (\<lambda>x. x + dt * 2) v"]
  by simp

section \<open>Properties of delay lookup\<close>

text \<open>
  Claim C7 on the code. For a key that is in neither dictionary, a lookup with a step
  specification raises the descriptive \<open>ValueError\<close> that names the key; a lookup with
  \<^verbatim>\<open>delay_step=None\<close> never reaches that test: it subscripts the global dictionary
  first and fails with the dictionary's bare \<open>KeyError\<close>.
\<close>

theorem get_delay_data_unregistered:
  assumes "global_delay_data w identifier = None"
    and "map_of (local_delay_vars self) identifier = None"
  shows "get_delay_data self w identifier (Some steps) indices
           = Inl (ValueError (identifier @ '' is not defined in delay variables.''))
         \<and> get_delay_data self w identifier None indices = Inl (KeyError identifier)"
  using assms by (simp add: get_delay_data_def)

theorem get_delay_data_unregistered_witness:
  "get_delay_data (DynamicalSystem_init ''n'' NeuGroup)
     \<lparr>variables = (\<lambda>v. []), delays = (\<lambda>r. \<lparr>data = []\<rparr>), next_delay = 0,
      global_delay_data = Map.empty\<rparr>
     ''k'' (Some (Homo 0)) None
     = Inl (ValueError ''k is not defined in delay variables.'')
   \<and> get_delay_data (DynamicalSystem_init ''n'' NeuGroup)
     \<lparr>variables = (\<lambda>v. []), delays = (\<lambda>r. \<lparr>data = []\<rparr>), next_delay = 0,
      global_delay_data = Map.empty\<rparr>
     ''k'' None None
     = Inl (KeyError ''k'')"
  using get_delay_data_unregistered
    [of "\<lparr>variables = (\<lambda>v. []), delays = (\<lambda>r. \<lparr>data = []\<rparr>), next_delay = 0,
          global_delay_data = Map.empty\<rparr>" "''k''" "DynamicalSystem_init ''n'' NeuGroup" "Homo 0" None]
  by (simp add: DynamicalSystem_init_def get_delay_data_def)

section \<open>Properties of delay registration\<close>

lemmas delay_simps =
  register_delay_def closing_call_def register_implicit_nodes_def
  delay_steps_def heter_steps_def new_delay_def setitem_def
  get_delay_data_def retrieve_homo_def retrieve_heter_def num_delay_step_def
  LengthDelay_def LengthDelay_update_def LengthDelay_reset_def target_value_def target_len_def
  DynamicalSystem_init_def empty_store_def delay_example_def owner_def


lemma closing_call_raises:
  "register_implicit_nodes base self = Some e \<Longrightarrow> closing_call base ret self w = (Inl e, self, w)"
  by (simp add: closing_call_def)


text \<open>
  Claim C4. \<^verbatim>\<open>register_delay(key, None, T)\<close> for a variable \<open>T\<close>, on every node
  and in every store: the call writes the entry "no buffer, target \<open>T\<close>" under the key
  into the global dictionary and changes nothing else (no buffer object is created, the
  node's local delay variables are as before); then it makes its closing call and returns
  \<^verbatim>\<open>None\<close>, or ends with the exception of the closing call (a \<^verbatim>\<open>CondNeuGroup\<close> that
  already has a local delay variable), the entry being written in both cases. In every
  later store in which the key still holds that entry (whatever happened to the variables
  in between), \<^verbatim>\<open>get_delay_data(key, None)\<close> returns the value \<open>T\<close> holds then.
\<close>

theorem register_delay_none_pass_through:
  fixes w :: "'a::zero world"
  shows "snd (register_delay base conflict self w identifier None (Variable T) initial_delay_data)
           = (self, w\<lparr>global_delay_data := (global_delay_data w)(identifier \<mapsto> (None, Variable T))\<rparr>)
         \<and> fst (register_delay base conflict self w identifier None (Variable T) initial_delay_data)
           = (case register_implicit_nodes base self of None \<Rightarrow> Inr None | Some e \<Rightarrow> Inl e)
         \<and> (global_delay_data w' identifier = Some (None, Variable T) \<longrightarrow>
              get_delay_data self' w' identifier None indices = Inr (variables w' T))"
  by (simp add: register_delay_def closing_call_def get_delay_data_def target_value_def
      split: option.splits)

theorem register_delay_none_pass_through_witness:
  "register_delay (\<lambda>n. None) (\<lambda>old new. old \<noteq> new) (DynamicalSystem_init ''n'' NeuGroup)
      (empty_store [1, 2]) ''k'' None (Variable 0) None
     = (Inr None, DynamicalSystem_init ''n'' NeuGroup,
        (empty_store [1, 2])\<lparr>global_delay_data := [''k'' \<mapsto> (None, Variable 0)]\<rparr>)
   \<and> register_delay (\<lambda>n. None) (\<lambda>old new. old \<noteq> new) (owner\<lparr>cls := CondNeuGroup\<rparr>)
      (empty_store [1, 2]) ''k'' None (Variable 0) None
     = (Inl (ValueError ''Child class should define master_type to specify the type of the master.''),
        owner\<lparr>cls := CondNeuGroup\<rparr>,
        (empty_store [1, 2])\<lparr>global_delay_data := [''k'' \<mapsto> (None, Variable 0)]\<rparr>)
   \<and> get_delay_data (DynamicalSystem_init ''n'' NeuGroup)
        ((empty_store [1, 2])\<lparr>global_delay_data := [''k'' \<mapsto> (None, Variable 0)]\<rparr>)
        ''k'' None None = Inr [1, 2]
   \<and> get_delay_data (DynamicalSystem_init ''n'' NeuGroup)
        ((empty_store [1, 2])\<lparr>global_delay_data := [''k'' \<mapsto> (None, Variable 0)],
                               variables := (\<lambda>v. [7, 8])\<rparr>)
        ''k'' None None = Inr [7, 8]"
proof -
  let ?w = "(empty_store [1, 2])\<lparr>global_delay_data := [''k'' \<mapsto> (None, Variable 0)]\<rparr>"
  have "register_delay (\<lambda>n. None) (\<lambda>old new. old \<noteq> new) (DynamicalSystem_init ''n'' NeuGroup)
      (empty_store [1, 2]) ''k'' None (Variable 0) None
     = (Inr None, DynamicalSystem_init ''n'' NeuGroup, ?w)"
    using register_delay_none_pass_through
      [of "\<lambda>n. None" "\<lambda>old new. old \<noteq> new" "DynamicalSystem_init ''n'' NeuGroup" "empty_store [1, 2]"
        "''k''" 0 None ?w "DynamicalSystem_init ''n'' NeuGroup" None]
    by (simp add: empty_store_def register_implicit_nodes_def DynamicalSystem_init_def prod_eq_iff)
  moreover have "register_delay (\<lambda>n. None) (\<lambda>old new. old \<noteq> new) (owner\<lparr>cls := CondNeuGroup\<rparr>)
      (empty_store [1, 2]) ''k'' None (Variable 0) None
     = (Inl (ValueError ''Child class should define master_type to specify the type of the master.''),
        owner\<lparr>cls := CondNeuGroup\<rparr>, ?w)"
    using register_delay_none_pass_through
      [of "\<lambda>n. None" "\<lambda>old new. old \<noteq> new" "owner\<lparr>cls := CondNeuGroup\<rparr>" "empty_store [1, 2]"
        "''k''" 0 None ?w "DynamicalSystem_init ''n'' NeuGroup" None]
    by (simp add: empty_store_def register_implicit_nodes_def owner_def prod_eq_iff)
  moreover have "get_delay_data (DynamicalSystem_init ''n'' NeuGroup) ?w ''k'' None None = Inr [1, 2]"
    using register_delay_none_pass_through
      [of "\<lambda>n. None" "\<lambda>old new. old \<noteq> new" "DynamicalSystem_init ''n'' NeuGroup" "empty_store [1, 2]"
        "''k''" 0 None ?w "DynamicalSystem_init ''n'' NeuGroup" None]
    by (simp add: empty_store_def)
  moreover have "get_delay_data (DynamicalSystem_init ''n'' NeuGroup)
        (?w\<lparr>variables := (\<lambda>v. [7, 8])\<rparr>) ''k'' None None = Inr [7, 8]"
    using register_delay_none_pass_through
      [of "\<lambda>n. None" "\<lambda>old new. old \<noteq> new" "DynamicalSystem_init ''n'' NeuGroup" "empty_store [1, 2]"
        "''k''" 0 None "?w\<lparr>variables := (\<lambda>v. [7, 8])\<rparr>" "DynamicalSystem_init ''n'' NeuGroup" None]
    by (simp add: empty_store_def)
  ultimately show ?thesis by simp
qed

lemma replicate_2: "replicate 2 x = [x, x]"
  by (simp add: eval_nat_numeral)



text \<open>
  How the store of the examples comes about: a first registration of \<^verbatim>\<open>'k'\<close> with one
  step on a variable holding \<open>[1]\<close> and fill value \<open>[0]\<close>, then one refresh after the
  variable has moved on to \<open>[2]\<close>. The buffer then records \<open>[1]\<close> at lag 1.
\<close>

lemma delay_example_reached:
  "register_delay (\<lambda>n. None) (\<lambda>old new. old \<noteq> new) (DynamicalSystem_init ''n'' NeuGroup)
      (empty_store [1]) ''k'' (Some (IntStep 1)) (Variable 0) (Some [0])
     = (Inr (Some (Homo 1)), owner, delay_example [[1], [0]] [1])
   \<and> (delay_example [[1], [0]] [1])\<lparr>variables := (\<lambda>v. [2])\<rparr> = delay_example [[1], [0]] [2]
   \<and> refresh_delays [''k''] ([], delay_example [[1], [0]] [2])
     = (None, [Refreshed ''k''], delay_example [[2], [1]] [2])"
  by (simp add: delay_simps)

text \<open>
  A step registration on a \<^verbatim>\<open>CondNeuGroup\<close> ends with the exception of the closing call,
  after the buffer has been created and entered in both dictionaries.
\<close>

lemma register_delay_CondNeuGroup_raises:
  "register_delay (\<lambda>n. None) (\<lambda>old new. old \<noteq> new) (DynamicalSystem_init ''n'' CondNeuGroup)
      (empty_store [1]) ''k'' (Some (IntStep 1)) (Variable 0) (Some [0])
     = (Inl (ValueError ''Child class should define master_type to specify the type of the master.''),
        owner\<lparr>cls := CondNeuGroup\<rparr>, delay_example [[1], [0]] [1])"
  by (simp add: delay_simps)




section \<open>Properties of heterogeneous delay lookup\<close>

lemma map2_upt_nth:
  "map2 f ds [0..<length ds] = map (\<lambda>k. f (ds ! k) k) [0..<length ds]"
  by (rule nth_equalityI) auto

lemma retrieve_heter_arange:
  assumes "\<forall>d \<in> set ds. d < num_delay_step b \<and> length ds \<le> length (data b ! d)"
  shows "retrieve_heter b ds [0..<length ds] = Inr (map (\<lambda>k. data b ! (ds ! k) ! k) [0..<length ds])"
proof -
  have "\<not> list_ex (\<lambda>d. num_delay_step b \<le> d) ds"
    using assms by (auto simp: list_ex_iff)
  moreover have "list_all2 (\<lambda>d i. i < length (data b ! d)) ds [0..<length ds]"
  proof -
    have "i < length (data b ! (ds ! i))" if "i < length ds" for i
    proof -
      have "ds ! i \<in> set ds" using that by simp
      with assms have "length ds \<le> length (data b ! (ds ! i))" by blast
      with that show ?thesis by simp
    qed
    then show ?thesis
      by (simp add: list_all2_conv_all_nth)
  qed
  ultimately show ?thesis
    by (simp add: retrieve_heter_def map2_upt_nth)
qed

text \<open>
  A first registration of a key with a step array (one step per element of the target)
  that returns gives a store in which the hypotheses of the next theorem hold: the buffer
  has a slot for every lag of the array and every slot has an element for every position.
\<close>

lemma register_delay_heter_fresh:
  fixes w :: "'a::zero world"
  assumes "global_delay_data w identifier = None"
    and "register_delay base conflict self w identifier (Some (ArrayStep dt ds)) (Variable v)
           initial_delay_data = (Inr st, self', w')"
    and "case initial_delay_data of None \<Rightarrow> True | Some fill \<Rightarrow> length fill = length (variables w v)"
  shows "st = Some (Heter dt ds)
         \<and> global_delay_data w' identifier = Some (Some (next_delay w), Variable v)
         \<and> delays w' (next_delay w) = LengthDelay (variables w v) (Max (set ds)) initial_delay_data
         \<and> (\<forall>d \<in> set ds. d < num_delay_step (delays w' (next_delay w))
               \<and> length ds \<le> length (data (delays w' (next_delay w)) ! d))"
proof -
  from assms(2) obtain steps m where sm: "delay_steps w (Variable v) (ArrayStep dt ds) = Inr (steps, m)"
    by (cases "delay_steps w (Variable v) (ArrayStep dt ds)") (auto simp: register_delay_def)
  then have steps: "steps = Heter dt ds" "m = Max (set ds)"
    and len: "length (variables w v) = length ds"
    by (auto simp: delay_steps_def heter_steps_def target_len_def split: if_splits)
  from assms(1,2) sm steps have res: "st = Some (Heter dt ds)"
    "global_delay_data w' identifier = Some (Some (next_delay w), Variable v)"
    "delays w' (next_delay w) = LengthDelay (variables w v) (Max (set ds)) initial_delay_data"
    by (auto simp: register_delay_def new_delay_def closing_call_def Let_def
        split: sum.splits option.splits)
  have "d < num_delay_step (delays w' (next_delay w))
        \<and> length ds \<le> length (data (delays w' (next_delay w)) ! d)" if "d \<in> set ds" for d
  proof -
    have "d \<le> Max (set ds)" using that by simp
    then show ?thesis
      using assms(3) len
      by (cases d) (auto simp: res(3) LengthDelay_def num_delay_step_def split: option.splits)
  qed
  with res show ?thesis by blast
qed

text \<open>
  Claim C6, on the retrieval modelled from the spec. For a key whose buffer has a slot for
  every lag of the step array \<open>ds\<close> and an element for every position in each of those
  slots, \<^verbatim>\<open>get_delay_data(key, ds)\<close> without indices returns, at each position \<open>k\<close>,
  element \<open>k\<close> of the value recorded at lag \<open>ds ! k\<close>, and it returns what the call
  with the explicit indices \<^verbatim>\<open>arange(ds.size)\<close> returns.
\<close>

theorem get_delay_data_heter_default_indices:
  assumes "global_delay_data w identifier = Some (Some r, tgt)"
    and "\<forall>d \<in> set ds. d < num_delay_step (delays w r) \<and> length ds \<le> length (data (delays w r) ! d)"
  shows "get_delay_data self w identifier (Some (Heter dt ds)) None
           = Inr (map (\<lambda>k. data (delays w r) ! (ds ! k) ! k) [0..<length ds])
         \<and> get_delay_data self w identifier (Some (Heter dt ds)) None
           = get_delay_data self w identifier (Some (Heter dt ds)) (Some [0..<length ds])"
  using assms(1) retrieve_heter_arange [OF assms(2)]
  by (simp add: get_delay_data_def)

theorem get_delay_data_heter_default_indices_witness:
  "get_delay_data owner (delay_example [[11, 21, 31], [10, 20, 30], [1, 2, 3]] [11, 21, 31])
      ''k'' (Some (Heter Int32 [0, 2, 1])) None
     = Inr [11, 2, 30]"
  using get_delay_data_heter_default_indices
      [of "delay_example [[11, 21, 31], [10, 20, 30], [1, 2, 3]] [11, 21, 31]" "''k''" 0 "Variable 0"
        "[0, 2, 1]" owner Int32]
  by (simp add: delay_example_def num_delay_step_def)

text \<open>
  The store of the witness is the one a registration with the step array \<open>[0, 2, 1]\<close> and
  one refresh produce.
\<close>

lemma heter_example_reached:
  "register_delay (\<lambda>n. None) (\<lambda>old new. old \<noteq> new) (DynamicalSystem_init ''n'' NeuGroup)
      (empty_store [10, 20, 30]) ''k'' (Some (ArrayStep Int32 [0, 2, 1])) (Variable 0) (Some [1, 2, 3])
     = (Inr (Some (Heter Int32 [0, 2, 1])), owner,
        delay_example [[10, 20, 30], [1, 2, 3], [1, 2, 3]] [10, 20, 30])
   \<and> refresh_delays [''k''] ([], delay_example [[10, 20, 30], [1, 2, 3], [1, 2, 3]] [11, 21, 31])
     = (None, [Refreshed ''k''], delay_example [[11, 21, 31], [10, 20, 30], [1, 2, 3]] [11, 21, 31])"
  by (simp add: delay_simps replicate_2)

section \<open>Properties of the update pass of a \<^verbatim>\<open>Network\<close>\<close>























text \<open>
  The store of the next example is reached by three registrations of one key: with one
  step by a first node, with \<^verbatim>\<open>None\<close> by a second (which replaces the entry), and with
  one step by a third, which finds no buffer under the key and creates its own.
\<close>

lemma two_owner_store_reached:
  "register_delay (\<lambda>n. None) (\<lambda>old new. old \<noteq> new) (DynamicalSystem_init ''n'' NeuGroup)
      (empty_store [1]) ''k'' (Some (IntStep 1)) (Variable 0) (Some [0])
     = (Inr (Some (Homo 1)), owner, delay_example [[1], [0]] [1])
   \<and> register_delay (\<lambda>n. None) (\<lambda>old new. old \<noteq> new) (DynamicalSystem_init ''b'' NeuGroup)
      (delay_example [[1], [0]] [1]) ''k'' None (Variable 0) None
     = (Inr None, DynamicalSystem_init ''b'' NeuGroup,
        (delay_example [[1], [0]] [1])\<lparr>global_delay_data := [''k'' \<mapsto> (None, Variable 0)]\<rparr>)
   \<and> register_delay (\<lambda>n. None) (\<lambda>old new. old \<noteq> new) (DynamicalSystem_init ''c'' NeuGroup)
      ((delay_example [[1], [0]] [1])\<lparr>global_delay_data := [''k'' \<mapsto> (None, Variable 0)]\<rparr>)
      ''k'' (Some (IntStep 1)) (Variable 0) (Some [0])
     = (Inr (Some (Homo 1)), second_owner, two_owner_store [[1], [0]] [[1], [0]] [1])"
  by (simp add: delay_simps second_owner_def two_owner_store_def)


end
